theory Spec2Isabelle
  imports Main "HOL-Library.Word"
begin

section \<open>The Nadeo client (nadeo.go) as state-passing functions\<close>

text \<open>
  The client of nadeo.go talks to three things outside itself: the wall clock, the network
  and the library decoders. They are collected in an environment \<open>env\<close>, over which
  every result below is universally quantified. What the program changes is split in two:
  the struct \<open>nadeo\<close> (tokens, timing fields, response cache) and the \<open>world\<close>
  (the requests handed to the HTTP client so far, and how often the clock was read).
  A Go call returns a value, returns an error, or panics: \<open>outcome\<close>.
\<close>

subsection \<open>Data\<close>

type_synonym uint32 = "32 word"

datatype 'a outcome = Ok 'a | Err string | Panic string

text \<open>\<open>http.Request\<close>: the fields the program sets. \<open>Body = None\<close> is the nil reader.\<close>

record Request =
  Method :: string
  URL :: string
  Body :: "string option"
  Header :: "(string \<times> string) list"

text \<open>
  \<open>http.Response\<close>: the status, the declared length (\<open>-1\<close> when the length is unknown,
  as for a chunked or transparently decompressed body), the bytes the body stream
  delivers, and the error the stream ends with when it does not end with EOF.
\<close>

record Response =
  StatusCode :: int
  ContentLength :: int
  Stream :: string
  StreamErr :: "string option"

text \<open>
  The structs declared beside nadeo.go, with the fields nadeo.go reads:
  \<open>respError.Code\<close> (printed with \<open>%d\<close>), \<open>respError.Message\<close>, \<open>res.AccessToken\<close>,
  \<open>res.RefreshToken\<close>, \<open>tokenInfo.Payload.Rat\<close> and \<open>tokenInfo.Payload.Exp\<close> (both
  assigned to \<open>uint32\<close> fields without conversion).
\<close>

record errorResponse =
  Code :: int
  Message :: string

record authResponse =
  AccessToken :: string
  RefreshToken :: string

record TokenPayload =
  Rat :: uint32
  Exp :: uint32

record TokenInfo =
  Payload :: TokenPayload

text \<open>
  \<open>cache.Cache\<close> of go-cache: each item holds the object and its expiration as
  nanoseconds since the epoch (\<open>0\<close>: never expires). The janitor goroutine, which
  deletes expired items every cleanup interval, is left out: \<open>Get\<close> already treats an
  expired item as absent.
\<close>

record Item =
  Object :: string
  Expiration :: int

record Cache =
  defaultExpiration :: int
  items :: "string \<Rightarrow> Item option"

record nadeo =
  audience :: string
  accessToken :: string
  refreshToken :: string
  tokenRefreshTime :: uint32
  tokenExpirationTime :: uint32
  requestCache :: Cache

record world =
  sent :: "Request list"
  ticks :: nat

text \<open>
  The environment.
  \<^item> \<open>time_Now e k\<close>: the \<open>k\<close>-th reading of \<open>time.Now()\<close>, in nanoseconds since the epoch.
  \<^item> \<open>NewRequest_err e method url\<close>: the error of \<open>http.NewRequest\<close> (an invalid method or
    a URL that does not parse), if any.
  \<^item> \<open>client_Do e history req\<close>: what \<open>client.Do(req)\<close> returns after the requests of
    \<open>history\<close>: a transport error or a response.
  \<^item> \<open>Unmarshal_errorResponse e data v\<close>, \<open>Unmarshal_authResponse e data v\<close>:
    \<open>json.Unmarshal(data, &v)\<close>, as the value of \<open>v\<close> afterwards and the error returned.
  \<^item> \<open>parseTokenInfo e\<close>: the token codec of the repository (declared outside nadeo.go).
  \<^item> \<open>basicAuth e username password\<close>: the credentials \<open>SetBasicAuth\<close> puts after
    \<open>Basic\<close>.
  \<^item> \<open>ubi_Authenticate e appId email password w\<close>: \<open>NewUbi(appId)\<close> followed by
    \<open>Authenticate(email, password)\<close>, as the ticket \<open>GetTicket()\<close> returns afterwards,
    the failure of the login (if any) and the world afterwards.
\<close>

record env =
  time_Now :: "nat \<Rightarrow> int"
  NewRequest_err :: "string \<Rightarrow> string \<Rightarrow> string option"
  client_Do :: "Request list \<Rightarrow> Request \<Rightarrow> string + Response"
  Unmarshal_errorResponse :: "string \<Rightarrow> errorResponse \<Rightarrow> errorResponse \<times> string option"
  Unmarshal_authResponse :: "string \<Rightarrow> authResponse \<Rightarrow> authResponse \<times> string option"
  parseTokenInfo :: "string \<Rightarrow> TokenInfo"
  basicAuth :: "string \<Rightarrow> string \<Rightarrow> string"
  ubi_Authenticate :: "string \<Rightarrow> string \<Rightarrow> string \<Rightarrow> world \<Rightarrow> (string \<times> string option) \<times> world"

subsection \<open>Library calls\<close>

definition time_Now_UnixNano :: "env \<Rightarrow> world \<Rightarrow> int \<times> world" where
  "time_Now_UnixNano e w = (time_Now e (ticks w), w\<lparr>ticks := Suc (ticks w)\<rparr>)"

definition time_Now_Unix :: "env \<Rightarrow> world \<Rightarrow> int \<times> world" where
  "time_Now_Unix e w = (time_Now e (ticks w) div 1000000000, w\<lparr>ticks := Suc (ticks w)\<rparr>)"

definition NewRequest :: "env \<Rightarrow> string \<Rightarrow> string \<Rightarrow> string option \<Rightarrow> string + Request" where
  "NewRequest e method url body =
     (case NewRequest_err e method url of
        Some err \<Rightarrow> Inl err
      | None \<Rightarrow> Inr \<lparr>Method = method, URL = url, Body = body, Header = []\<rparr>)"

definition Header_Add :: "Request \<Rightarrow> string \<Rightarrow> string \<Rightarrow> Request" where
  "Header_Add req k v = req\<lparr>Header := Header req @ [(k, v)]\<rparr>"

definition SetBasicAuth :: "env \<Rightarrow> Request \<Rightarrow> string \<Rightarrow> string \<Rightarrow> Request" where
  "SetBasicAuth e req username password =
     req\<lparr>Header := filter (\<lambda>kv. fst kv \<noteq> ''Authorization'') (Header req) @
                    [(''Authorization'', ''Basic '' @ basicAuth e username password)]\<rparr>"

definition Do :: "env \<Rightarrow> Request \<Rightarrow> world \<Rightarrow> (string + Response) \<times> world" where
  "Do e req w = (client_Do e (sent w) req, w\<lparr>sent := sent w @ [req]\<rparr>)"

text \<open>\<open>ioutil.ReadAll(resp.Body)\<close>: every byte of the stream, or the stream's error.\<close>

definition ReadAll :: "Response \<Rightarrow> string + string" where
  "ReadAll resp = (case StreamErr resp of Some err \<Rightarrow> Inl err | None \<Rightarrow> Inr (Stream resp))"

text \<open>
  \<open>resBytes := make([]byte, resp.ContentLength); io.ReadFull(resp.Body, resBytes)\<close>.
  \<open>make\<close> panics on a negative length (\<open>None\<close>). Otherwise the buffer has exactly the
  declared length: the bytes the stream delivers, cut at that length, and zero bytes
  where the stream ended early (the error of \<open>ReadFull\<close> is not looked at). A length
  too large to allocate is outside the model.
\<close>

definition ReadFull :: "Response \<Rightarrow> string option" where
  "ReadFull resp =
     (if ContentLength resp < 0 then None
      else Some (take (nat (ContentLength resp)) (Stream resp) @
                 replicate (nat (ContentLength resp) - length (Stream resp)) (CHR 0x00)))"

text \<open>The verb \<open>%d\<close> of \<open>fmt\<close> on an integer: decimal digits, a minus sign first if negative.\<close>

fun digits :: "nat \<Rightarrow> string" where
  "digits n =
     (if n < 10 then [''0123456789'' ! n]
      else digits (n div 10) @ [''0123456789'' ! (n mod 10)])"

declare digits.simps [simp del]

definition fmt_d :: "int \<Rightarrow> string" where
  "fmt_d i = (if i < 0 then CHR ''-'' # digits (nat (- i)) else digits (nat i))"

text \<open>go-cache: \<open>New\<close>, \<open>Get\<close> and \<open>Set\<close>; \<open>DefaultExpiration\<close> is the duration \<open>0\<close>.\<close>

definition DefaultExpiration :: int where
  "DefaultExpiration = 0"

definition time_Minute :: int where
  "time_Minute = 60000000000"

definition cache_New :: "int \<Rightarrow> int \<Rightarrow> Cache" where
  "cache_New de cleanupInterval =
     \<lparr>defaultExpiration = (if de = 0 then - 1 else de), items = (\<lambda>k. None)\<rparr>"

definition cache_Get :: "env \<Rightarrow> Cache \<Rightarrow> string \<Rightarrow> world \<Rightarrow> string option \<times> world" where
  "cache_Get e c k w =
     (case items c k of
        None \<Rightarrow> (None, w)
      | Some item \<Rightarrow>
          if Expiration item > 0 then
            (case time_Now_UnixNano e w of
               (now, w') \<Rightarrow> if now > Expiration item then (None, w') else (Some (Object item), w'))
          else (Some (Object item), w))"

definition cache_Set :: "env \<Rightarrow> Cache \<Rightarrow> string \<Rightarrow> string \<Rightarrow> int \<Rightarrow> world \<Rightarrow> Cache \<times> world" where
  "cache_Set e c k x d0 w =
     (let d = (if d0 = DefaultExpiration then defaultExpiration c else d0) in
      if d > 0 then
        (case time_Now_UnixNano e w of
           (now, w') \<Rightarrow> (c\<lparr>items := (items c)(k := Some \<lparr>Object = x, Expiration = now + d\<rparr>)\<rparr>, w'))
      else (c\<lparr>items := (items c)(k := Some \<lparr>Object = x, Expiration = 0\<rparr>)\<rparr>, w))"

subsection \<open>The authentication flows\<close>

text \<open>Lines 66-70, 105-112 and 219-223: the error returned for a response that is not 200.\<close>

definition serverAuthError :: "env \<Rightarrow> string \<Rightarrow> string" where
  "serverAuthError e resBytes =
     (let respError = fst (Unmarshal_errorResponse e resBytes \<lparr>Code = 0, Message = ''''\<rparr>)
      in ''error '' @ fmt_d (Code respError) @ '' from server: '' @ Message respError)"

text \<open>Lines 72-80, 114-122 and 225-233: decode the tokens and store the four fields.\<close>

definition storeTokens :: "env \<Rightarrow> string \<Rightarrow> nadeo \<Rightarrow> nadeo" where
  "storeTokens e resBytes n0 =
     (let res = fst (Unmarshal_authResponse e resBytes \<lparr>AccessToken = '''', RefreshToken = ''''\<rparr>);
          n1 = n0\<lparr>accessToken := AccessToken res\<rparr>;
          n2 = n1\<lparr>refreshToken := RefreshToken res\<rparr>;
          tokenInfo = parseTokenInfo e (accessToken n2);
          n3 = n2\<lparr>tokenRefreshTime := Rat (Payload tokenInfo)\<rparr>
      in n3\<lparr>tokenExpirationTime := Exp (Payload tokenInfo)\<rparr>)"

text \<open>
  Lines 57-82, 96-124 and 210-235, the same text in the three functions: perform the
  request, read the body into a buffer of the declared length, then fail on a status
  other than 200 or store the tokens.
\<close>

definition exchange :: "env \<Rightarrow> Request \<Rightarrow> nadeo \<Rightarrow> world \<Rightarrow> unit outcome \<times> nadeo \<times> world" where
  "exchange e req n w =
     (case Do e req w of
        (Inl err, w') \<Rightarrow> (Err (''unable to perform request: '' @ err), n, w')
      | (Inr resp, w') \<Rightarrow>
          (case ReadFull resp of
             None \<Rightarrow> (Panic ''runtime error: makeslice: len out of range'', n, w')
           | Some resBytes \<Rightarrow>
               if StatusCode resp \<noteq> 200 then (Err (serverAuthError e resBytes), n, w')
               else (Ok (), storeTokens e resBytes n, w')))"

definition url_ubiservices :: string where
  "url_ubiservices = ''https://prod.trackmania.core.nadeo.online/v2/authentication/token/ubiservices''"

definition url_basic :: string where
  "url_basic = ''https://prod.trackmania.core.nadeo.online/v2/authentication/token/basic''"

definition url_refresh :: string where
  "url_refresh = ''https://prod.trackmania.core.nadeo.online/v2/authentication/token/refresh''"

definition audienceBody :: "nadeo \<Rightarrow> string" where
  \<open>audienceBody n = ''{"audience":"'' @ audience n @ ''"}''\<close>

definition AuthenticateUbiTicket :: "env \<Rightarrow> string \<Rightarrow> nadeo \<Rightarrow> world \<Rightarrow> unit outcome \<times> nadeo \<times> world" where
  "AuthenticateUbiTicket e ticket n w =
     (case NewRequest e ''POST'' url_ubiservices (Some (audienceBody n)) of
        Inl err \<Rightarrow> (Err (''unable to make request: '' @ err), n, w)
      | Inr req \<Rightarrow>
          exchange e
            (Header_Add (Header_Add req ''Content-Type'' ''application/json'')
               ''Authorization'' (''ubi_v1 t='' @ ticket))
            n w)"

definition ubi_appId :: string where
  "ubi_appId = ''86263886-327a-4328-ac69-527f0d20a237''"

definition AuthenticateUbi :: "env \<Rightarrow> string \<Rightarrow> string \<Rightarrow> nadeo \<Rightarrow> world \<Rightarrow> unit outcome \<times> nadeo \<times> world" where
  "AuthenticateUbi e email password n w =
     (case ubi_Authenticate e ubi_appId email password w of
        ((ticket, failure), w') \<Rightarrow> AuthenticateUbiTicket e ticket n w')"

definition Authenticate :: "env \<Rightarrow> string \<Rightarrow> string \<Rightarrow> nadeo \<Rightarrow> world \<Rightarrow> unit outcome \<times> nadeo \<times> world" where
  "Authenticate e username password n w =
     (case NewRequest e ''POST'' url_basic (Some (audienceBody n)) of
        Inl err \<Rightarrow> (Err (''unable to make request: '' @ err), n, w)
      | Inr req \<Rightarrow>
          exchange e
            (SetBasicAuth e (Header_Add req ''Content-Type'' ''application/json'') username password)
            n w)"

definition refreshNow :: "env \<Rightarrow> nadeo \<Rightarrow> world \<Rightarrow> unit outcome \<times> nadeo \<times> world" where
  "refreshNow e n w =
     (case NewRequest e ''POST'' url_refresh None of
        Inl err \<Rightarrow> (Err (''unable to make request: '' @ err), n, w)
      | Inr req \<Rightarrow>
          exchange e (Header_Add req ''Authorization'' (''nadeo_v1 t='' @ refreshToken n)) n w)"

definition CheckRefresh :: "env \<Rightarrow> nadeo \<Rightarrow> world \<Rightarrow> unit outcome \<times> nadeo \<times> world" where
  "CheckRefresh e n w =
     (case time_Now_Unix e w of
        (t, w1) \<Rightarrow>
          if (word_of_int t :: uint32) > tokenRefreshTime n then
            (case refreshNow e n w1 of
               (Err err, n', w') \<Rightarrow> (Err (''unable to refresh token: '' @ err), n', w')
             | (Panic p, n', w') \<Rightarrow> (Panic p, n', w')
             | (Ok u, n', w') \<Rightarrow> (Ok (), n', w'))
          else (Ok (), n, w1))"

subsection \<open>The request dispatcher\<close>

definition request :: "env \<Rightarrow> string \<Rightarrow> string \<Rightarrow> bool \<Rightarrow> string \<Rightarrow> nadeo \<Rightarrow> world \<Rightarrow> string outcome \<times> nadeo \<times> world" where
  "request e method url useCache data n w =
     (case (if useCache then cache_Get e (requestCache n) url w else (None, w)) of
        (Some cachedResponse, w0) \<Rightarrow> (Ok cachedResponse, n, w0)
      | (None, w0) \<Rightarrow>
          (case CheckRefresh e n w0 of
             (Err err, n1, w1) \<Rightarrow> (Err err, n1, w1)
           | (Panic p, n1, w1) \<Rightarrow> (Panic p, n1, w1)
           | (Ok u, n1, w1) \<Rightarrow>
               (case NewRequest e method url (if method = ''POST'' then Some data else None) of
                  Inl err \<Rightarrow> (Err (''unable to make request: '' @ err), n1, w1)
                | Inr req0 \<Rightarrow>
                    (case Do e
                            (Header_Add
                               (Header_Add
                                  (Header_Add req0 ''Authorization'' (''nadeo_v1 t='' @ accessToken n1))
                                  ''Accept'' ''application/json'')
                               ''Content-Type'' ''application/json'')
                            w1 of
                       (Inl err, w2) \<Rightarrow> (Err (''unable to perform request: '' @ err), n1, w2)
                     | (Inr resp, w2) \<Rightarrow>
                         (case ReadAll resp of
                            Inl err \<Rightarrow> (Err (''unable to read from stream: '' @ err), n1, w2)
                          | Inr resBytes \<Rightarrow>
                              if StatusCode resp \<noteq> 200 then
                                (Err (''error from server: '' @ resBytes), n1, w2)
                              else if useCache then
                                (case cache_Set e (requestCache n1) url resBytes DefaultExpiration w2 of
                                   (c, w3) \<Rightarrow> (Ok resBytes, n1\<lparr>requestCache := c\<rparr>, w3))
                              else (Ok resBytes, n1, w2))))))"

definition Get :: "env \<Rightarrow> string \<Rightarrow> bool \<Rightarrow> nadeo \<Rightarrow> world \<Rightarrow> string outcome \<times> nadeo \<times> world" where
  "Get e url useCache n w = request e ''GET'' url useCache '''' n w"

definition Post :: "env \<Rightarrow> string \<Rightarrow> string \<Rightarrow> nadeo \<Rightarrow> world \<Rightarrow> string outcome \<times> nadeo \<times> world" where
  "Post e url data n w = request e ''POST'' url False data n w"

definition GetTokenInfo :: "env \<Rightarrow> nadeo \<Rightarrow> TokenInfo" where
  "GetTokenInfo e n = parseTokenInfo e (accessToken n)"

definition NewNadeoWithAudience :: "string \<Rightarrow> nadeo" where
  "NewNadeoWithAudience a =
     \<lparr>audience = a, accessToken = '''', refreshToken = '''',
      tokenRefreshTime = 0, tokenExpirationTime = 0,
      requestCache = cache_New (1 * time_Minute) (5 * time_Minute)\<rparr>"

definition NewNadeo :: nadeo where
  "NewNadeo = NewNadeoWithAudience ''NadeoLiveServices''"

subsection \<open>The requests the program builds\<close>

text \<open>
  The refresh request of \<open>refreshNow\<close> and the resource request of \<open>request\<close>, written
  out with their headers in the order the program adds them.
\<close>

definition refreshRequest :: "string \<Rightarrow> Request" where
  "refreshRequest token =
     \<lparr>Method = ''POST'',
      URL = ''https://prod.trackmania.core.nadeo.online/v2/authentication/token/refresh'',
      Body = None,
      Header = [(''Authorization'', ''nadeo_v1 t='' @ token)]\<rparr>"

definition resourceRequest :: "string \<Rightarrow> string \<Rightarrow> string option \<Rightarrow> string \<Rightarrow> Request" where
  "resourceRequest method url body token =
     \<lparr>Method = method, URL = url, Body = body,
      Header = [(''Authorization'', ''nadeo_v1 t='' @ token),
                (''Accept'', ''application/json''),
                (''Content-Type'', ''application/json'')]\<rparr>"

text \<open>
  The requests of the ticket flow and of the basic flow, with the audience of the session
  in the body.
\<close>

definition ubiservicesRequest :: "string \<Rightarrow> string \<Rightarrow> Request" where
  \<open>ubiservicesRequest aud ticket =
     \<lparr>Method = ''POST'',
      URL = ''https://prod.trackmania.core.nadeo.online/v2/authentication/token/ubiservices'',
      Body = Some (''{"audience":"'' @ aud @ ''"}''),
      Header = [(''Content-Type'', ''application/json''),
                (''Authorization'', ''ubi_v1 t='' @ ticket)]\<rparr>\<close>

definition basicRequest :: "env \<Rightarrow> string \<Rightarrow> string \<Rightarrow> string \<Rightarrow> Request" where
  \<open>basicRequest e aud username password =
     \<lparr>Method = ''POST'',
      URL = ''https://prod.trackmania.core.nadeo.online/v2/authentication/token/basic'',
      Body = Some (''{"audience":"'' @ aud @ ''"}''),
      Header = [(''Content-Type'', ''application/json''),
                (''Authorization'', ''Basic '' @ basicAuth e username password)]\<rparr>\<close>

subsection \<open>A scripted environment\<close>

text \<open>
  A small environment on which the functions above can be run: the clock starts at
  1700000000 s and advances by a nanosecond at each reading; the server rejects a POST
  that carries an empty \<open>nadeo_v1\<close> token with a 401, answers every other POST with a pair
  of tokens, answers a GET of \<open>/missing\<close> with a 404 and every other GET with a small
  document; the decoders know exactly these bodies.
\<close>

definition tokens_json :: string where
  \<open>tokens_json = ''{"accessToken":"h.p.s","refreshToken":"r1"}''\<close>

definition rejected_json :: string where
  \<open>rejected_json = ''{"code":401,"message":"Invalid credentials."}''\<close>

definition reply :: "int \<Rightarrow> string \<Rightarrow> Response" where
  "reply status body =
     \<lparr>StatusCode = status, ContentLength = int (length body), Stream = body, StreamErr = None\<rparr>"

definition script_Do :: "Request list \<Rightarrow> Request \<Rightarrow> string + Response" where
  "script_Do history req =
     (if Method req = ''POST'' then
        (if (''Authorization'', ''nadeo_v1 t='') \<in> set (Header req)
         then Inr (reply 401 rejected_json)
         else Inr (reply 200 tokens_json))
      else if URL req = ''/missing'' then Inr (reply 404 ''not found'')
      else Inr (reply 200 ''[1,2,3]''))"

definition script_env :: env where
  "script_env =
     \<lparr>time_Now = (\<lambda>k. 1700000000000000000 + int k),
      NewRequest_err = (\<lambda>method url. None),
      client_Do = script_Do,
      Unmarshal_errorResponse = (\<lambda>data v.
        if data = rejected_json then (\<lparr>Code = 401, Message = ''Invalid credentials.''\<rparr>, None)
        else (v, Some ''invalid character'')),
      Unmarshal_authResponse = (\<lambda>data v.
        if data = tokens_json then (\<lparr>AccessToken = ''h.p.s'', RefreshToken = ''r1''\<rparr>, None)
        else (v, Some ''invalid character'')),
      parseTokenInfo = (\<lambda>token.
        if token = ''h.p.s'' then \<lparr>Payload = \<lparr>Rat = 1700001800, Exp = 1700003600\<rparr>\<rparr>
        else \<lparr>Payload = \<lparr>Rat = 0, Exp = 0\<rparr>\<rparr>),
      basicAuth = (\<lambda>username password. username @ '':'' @ password),
      ubi_Authenticate = (\<lambda>appId email password w. ((''t1'', None), w))\<rparr>"

definition world0 :: world where
  "world0 = \<lparr>sent = [], ticks = 0\<rparr>"

text \<open>
  The session the scripted server hands out, and a server whose answers do not declare
  their length (chunked transfer): it rejects every request with the same 401.
\<close>

definition session1 :: nadeo where
  "session1 =
     NewNadeo\<lparr>accessToken := ''h.p.s'', refreshToken := ''r1'',
              tokenRefreshTime := 1700001800, tokenExpirationTime := 1700003600\<rparr>"

definition chunked_env :: env where
  "chunked_env =
     script_env\<lparr>client_Do := (\<lambda>history req.
        Inr \<lparr>StatusCode = 401, ContentLength = - 1, Stream = rejected_json, StreamErr = None\<rparr>)\<rparr>"

text \<open>
  The scripted environment with the clock set to a given second, and a session whose
  refresh time (1699999000) has passed when the scripted clock starts.
\<close>

definition at_time :: "int \<Rightarrow> env" where
  "at_time t = script_env\<lparr>time_Now := (\<lambda>k. t * 1000000000 + int k)\<rparr>"

definition session0 :: nadeo where
  "session0 =
     NewNadeo\<lparr>accessToken := ''h0.p0.s0'', refreshToken := ''r0'',
              tokenRefreshTime := 1699999000, tokenExpirationTime := 1700000600\<rparr>"

text \<open>A server that answers every request with status 200 and a body that is not JSON.\<close>

definition garbled_env :: env where
  "garbled_env = script_env\<lparr>client_Do := (\<lambda>history req. Inr (reply 200 ''<html>''))\<rparr>"

text \<open>
  A server that answers every request with status 200 and a body whose second field has
  the wrong type; the decoder fills the access token, skips the second field and returns
  the type error, as \<open>json.Unmarshal\<close> is documented to do.
\<close>

definition partial_json :: string where
  \<open>partial_json = ''{"accessToken":"abc","refreshToken":5}''\<close>

definition partial_env :: env where
  "partial_env =
     script_env\<lparr>client_Do := (\<lambda>history req. Inr (reply 200 partial_json)),
                Unmarshal_authResponse := (\<lambda>data v.
                  if data = partial_json
                  then (v\<lparr>AccessToken := ''abc''\<rparr>,
                        Some ''json: cannot unmarshal number into Go struct field authResponse.refreshToken of type string'')
                  else (v, Some ''invalid character''))\<rparr>"

text \<open>The session after the scripted server's answer to a GET of \<open>/data\<close> was cached.\<close>

definition session2 :: nadeo where
  "session2 =
     session1\<lparr>requestCache := (requestCache session1)\<lparr>items := (items (requestCache session1))
        (''/data'' := Some \<lparr>Object = ''[1,2,3]'', Expiration = 1700000060000000001\<rparr>)\<rparr>\<rparr>"

section \<open>Properties\<close>

subsection \<open>Auxiliary facts\<close>

lemma exchange_cases:
  "exchange e req n w =
     (case client_Do e (sent w) req of
        Inl err \<Rightarrow> (Err (''unable to perform request: '' @ err), n, w\<lparr>sent := sent w @ [req]\<rparr>)
      | Inr resp \<Rightarrow>
          (case ReadFull resp of
             None \<Rightarrow> (Panic ''runtime error: makeslice: len out of range'', n, w\<lparr>sent := sent w @ [req]\<rparr>)
           | Some resBytes \<Rightarrow>
               if StatusCode resp \<noteq> 200 then (Err (serverAuthError e resBytes), n, w\<lparr>sent := sent w @ [req]\<rparr>)
               else (Ok (), storeTokens e resBytes n, w\<lparr>sent := sent w @ [req]\<rparr>)))"
  by (simp add: exchange_def Do_def split: sum.split option.split)

lemma storeTokens_fields:
  "storeTokens e resBytes n =
     n\<lparr>accessToken := AccessToken (fst (Unmarshal_authResponse e resBytes \<lparr>AccessToken = '''', RefreshToken = ''''\<rparr>)),
       refreshToken := RefreshToken (fst (Unmarshal_authResponse e resBytes \<lparr>AccessToken = '''', RefreshToken = ''''\<rparr>)),
       tokenRefreshTime := Rat (Payload (parseTokenInfo e
          (AccessToken (fst (Unmarshal_authResponse e resBytes \<lparr>AccessToken = '''', RefreshToken = ''''\<rparr>))))),
       tokenExpirationTime := Exp (Payload (parseTokenInfo e
          (AccessToken (fst (Unmarshal_authResponse e resBytes \<lparr>AccessToken = '''', RefreshToken = ''''\<rparr>)))))\<rparr>"
  by (simp add: storeTokens_def Let_def)

lemma exchange_Ok:
  assumes "exchange e req n w = (Ok u, n', w')"
  shows "\<exists>resp resBytes. client_Do e (sent w) req = Inr resp \<and> StatusCode resp = 200 \<and>
           ReadFull resp = Some resBytes \<and> n' = storeTokens e resBytes n \<and>
           w' = w\<lparr>sent := sent w @ [req]\<rparr>"
  using assms by (auto simp: exchange_cases split: sum.splits option.splits if_splits)

lemma exchange_not_Ok:
  assumes "exchange e req n w = (r, n', w')" and "r \<noteq> Ok ()"
  shows "n' = n \<and> w' = w\<lparr>sent := sent w @ [req]\<rparr>"
  using assms by (auto simp: exchange_cases split: sum.splits option.splits if_splits)

lemma exchange_sent:
  "sent (snd (snd (exchange e req n w))) = sent w @ [req]"
  by (simp add: exchange_cases split: sum.split option.split)

text \<open>
  An answer of declared length with a status other than 200 makes the exchange fail with
  the code and the message the decoder left in the envelope.
\<close>

lemma exchange_rejected:
  assumes "client_Do e (sent w) req = Inr resp" and "StatusCode resp \<noteq> 200"
    and "ReadFull resp = Some resBytes"
  shows "exchange e req n w =
           (Err (''error '' @
                 fmt_d (Code (fst (Unmarshal_errorResponse e resBytes \<lparr>Code = 0, Message = ''''\<rparr>))) @
                 '' from server: '' @
                 Message (fst (Unmarshal_errorResponse e resBytes \<lparr>Code = 0, Message = ''''\<rparr>))),
            n, w\<lparr>sent := sent w @ [req]\<rparr>)"
  using assms by (simp add: exchange_cases serverAuthError_def Let_def)

lemma flow_shape:
  assumes "f = AuthenticateUbiTicket e ticket \<or> f = AuthenticateUbi e email pw \<or>
           f = Authenticate e username password \<or> f = refreshNow e"
  shows "(\<exists>err v. f n w = (Err (''unable to make request: '' @ err), n, v)) \<or>
         (\<exists>req v. f n w = exchange e req n v)"
proof -
  have t: "(\<exists>err. AuthenticateUbiTicket e t n v = (Err (''unable to make request: '' @ err), n, v)) \<or>
           (\<exists>req. AuthenticateUbiTicket e t n v = exchange e req n v)" for t v
    by (cases "NewRequest e ''POST'' url_ubiservices (Some (audienceBody n))")
      (auto simp: AuthenticateUbiTicket_def)
  have u: "(\<exists>err v. AuthenticateUbi e email pw n w = (Err (''unable to make request: '' @ err), n, v)) \<or>
           (\<exists>req v. AuthenticateUbi e email pw n w = exchange e req n v)"
    using t by (simp add: AuthenticateUbi_def split: prod.split) blast
  have b: "(\<exists>err. Authenticate e username password n w = (Err (''unable to make request: '' @ err), n, w)) \<or>
           (\<exists>req. Authenticate e username password n w = exchange e req n w)"
    by (cases "NewRequest e ''POST'' url_basic (Some (audienceBody n))")
      (auto simp: Authenticate_def)
  have r: "(\<exists>err. refreshNow e n w = (Err (''unable to make request: '' @ err), n, w)) \<or>
           (\<exists>req. refreshNow e n w = exchange e req n w)"
    by (cases "NewRequest e ''POST'' url_refresh None")
      (auto simp: refreshNow_def)
  from assms t [of ticket w] u b r show ?thesis
    by blast
qed

lemma exchange_requestCache:
  "exchange e req (n\<lparr>requestCache := c\<rparr>) w =
     (case exchange e req n w of (r, n', w') \<Rightarrow> (r, n'\<lparr>requestCache := c\<rparr>, w'))"
  by (simp add: exchange_cases storeTokens_fields split: sum.split option.split)

lemma refreshNow_requestCache:
  "refreshNow e (n\<lparr>requestCache := c\<rparr>) w =
     (case refreshNow e n w of (r, n', w') \<Rightarrow> (r, n'\<lparr>requestCache := c\<rparr>, w'))"
  by (simp add: refreshNow_def exchange_requestCache split: sum.split)

lemma CheckRefresh_requestCache:
  "CheckRefresh e (n\<lparr>requestCache := c\<rparr>) w =
     (case CheckRefresh e n w of (r, n', w') \<Rightarrow> (r, n'\<lparr>requestCache := c\<rparr>, w'))"
  by (simp add: CheckRefresh_def time_Now_Unix_def refreshNow_requestCache
      split: prod.split outcome.split)

lemma exchange_keeps_cache:
  "requestCache (fst (snd (exchange e req n w))) = requestCache n"
  by (simp add: exchange_cases storeTokens_fields split: sum.split option.split)

lemma CheckRefresh_keeps_cache:
  "requestCache (fst (snd (CheckRefresh e n w))) = requestCache n"
proof -
  have "requestCache (fst (snd (refreshNow e n w1))) = requestCache n" for w1
    by (simp add: refreshNow_def exchange_keeps_cache split: sum.split)
  then have "refreshNow e n w1 = (r, n', w') \<Longrightarrow> requestCache n' = requestCache n" for w1 r n' w'
    by (metis fst_conv snd_conv)
  then show ?thesis
    by (auto simp: CheckRefresh_def time_Now_Unix_def split: prod.split outcome.split)
qed

lemma refreshNow_sent:
  "NewRequest_err e ''POST'' url_refresh = None \<Longrightarrow>
   sent (snd (snd (refreshNow e n w))) = sent w @ [refreshRequest (refreshToken n)]"
  by (simp add: refreshNow_def NewRequest_def exchange_sent Header_Add_def refreshRequest_def
      url_refresh_def)

lemma refreshNow_exchange:
  "NewRequest_err e ''POST'' url_refresh = None \<Longrightarrow>
   refreshNow e n w = exchange e (refreshRequest (refreshToken n)) n w"
  by (simp add: refreshNow_def NewRequest_def Header_Add_def refreshRequest_def url_refresh_def)

lemma CheckRefresh_not_due:
  "\<not> tokenRefreshTime n < word_of_int (time_Now e (ticks w) div 1000000000) \<Longrightarrow>
   CheckRefresh e n w = (Ok (), n, w\<lparr>ticks := Suc (ticks w)\<rparr>)"
  by (simp add: CheckRefresh_def time_Now_Unix_def)

lemma CheckRefresh_due:
  "tokenRefreshTime n < word_of_int (time_Now e (ticks w) div 1000000000) \<Longrightarrow>
   CheckRefresh e n w =
     (case refreshNow e n (w\<lparr>ticks := Suc (ticks w)\<rparr>) of
        (Err err, n', w') \<Rightarrow> (Err (''unable to refresh token: '' @ err), n', w')
      | (Panic p, n', w') \<Rightarrow> (Panic p, n', w')
      | (Ok u, n', w') \<Rightarrow> (Ok (), n', w'))"
  by (simp add: CheckRefresh_def time_Now_Unix_def)

lemma CheckRefresh_due_state:
  assumes "tokenRefreshTime n < word_of_int (time_Now e (ticks w) div 1000000000)"
  shows "snd (CheckRefresh e n w) = snd (refreshNow e n (w\<lparr>ticks := Suc (ticks w)\<rparr>))"
    and "(fst (CheckRefresh e n w) = Ok ()) = (fst (refreshNow e n (w\<lparr>ticks := Suc (ticks w)\<rparr>)) = Ok ())"
  by (simp_all add: CheckRefresh_due [OF assms] split: prod.split outcome.split)

lemma cache_Get_sent:
  "sent (snd (cache_Get e c k w)) = sent w"
  by (simp add: cache_Get_def time_Now_UnixNano_def split: option.split)

lemma Get_miss_Ok:
  assumes "cache_Get e (requestCache n) url w = (None, w0)"
    and "Get e url True n w = (Ok body, n', w')"
    and "0 < defaultExpiration (requestCache n)"
  shows "\<exists>n1 w1 resp.
           CheckRefresh e n w0 = (Ok (), n1, w1) \<and>
           client_Do e (sent w1) (resourceRequest ''GET'' url None (accessToken n1)) = Inr resp \<and>
           StatusCode resp = 200 \<and> StreamErr resp = None \<and> Stream resp = body \<and>
           n' = n1\<lparr>requestCache := (requestCache n)\<lparr>items := (items (requestCache n))
                  (url := Some \<lparr>Object = body,
                     Expiration = time_Now e (ticks w1) + defaultExpiration (requestCache n)\<rparr>)\<rparr>\<rparr> \<and>
           w' = \<lparr>sent = sent w1 @ [resourceRequest ''GET'' url None (accessToken n1)],
                 ticks = Suc (ticks w1)\<rparr>"
proof -
  obtain r1 n1 w1 where cr: "CheckRefresh e n w0 = (r1, n1, w1)"
    by (metis prod.collapse)
  have keep: "requestCache n1 = requestCache n"
    using CheckRefresh_keeps_cache [of e n w0] cr by simp
  from assms(2) have req: "request e ''GET'' url True [] n w = (Ok body, n', w')"
    by (simp add: Get_def)
  show ?thesis
    using req assms(1,3) cr keep
    by (auto simp: request_def NewRequest_def Do_def Header_Add_def ReadAll_def cache_Set_def
        DefaultExpiration_def time_Now_UnixNano_def resourceRequest_def
        split: outcome.splits option.splits sum.splits if_splits)
qed

lemma Get_hit:
  assumes "items (requestCache n) url = Some item"
    and "0 < Expiration item \<longrightarrow> time_Now e (ticks w) \<le> Expiration item"
  shows "fst (Get e url True n w) = Ok (Object item) \<and> fst (snd (Get e url True n w)) = n \<and>
         sent (snd (snd (Get e url True n w))) = sent w"
proof (cases "0 < Expiration item")
  case True
  with assms(2) have "\<not> Expiration item < time_Now e (ticks w)"
    by simp
  with True assms(1) show ?thesis
    by (simp add: Get_def request_def cache_Get_def time_Now_UnixNano_def)
next
  case False
  with assms(1) show ?thesis
    by (simp add: Get_def request_def cache_Get_def)
qed

lemma script_refresh:
  "CheckRefresh script_env session0 world0 =
     (Ok (), session1, \<lparr>sent = [refreshRequest ''r0''], ticks = 1\<rparr>)"
  by (simp add: CheckRefresh_def time_Now_Unix_def refreshNow_def NewRequest_def exchange_cases
      Header_Add_def script_env_def script_Do_def reply_def ReadFull_def storeTokens_fields
      tokens_json_def session0_def session1_def world0_def refreshRequest_def url_refresh_def)

lemma AuthenticateUbiTicket_exchange:
  "NewRequest_err e ''POST'' url_ubiservices = None \<Longrightarrow>
   AuthenticateUbiTicket e ticket n w = exchange e (ubiservicesRequest (audience n) ticket) n w"
  by (simp add: AuthenticateUbiTicket_def NewRequest_def Header_Add_def ubiservicesRequest_def
      url_ubiservices_def audienceBody_def)

lemma Authenticate_exchange:
  "NewRequest_err e ''POST'' url_basic = None \<Longrightarrow>
   Authenticate e username password n w =
     exchange e (basicRequest e (audience n) username password) n w"
  by (simp add: Authenticate_def NewRequest_def Header_Add_def SetBasicAuth_def basicRequest_def
      url_basic_def audienceBody_def)

lemma request_uncached:
  "request e method url False data n w =
     (case CheckRefresh e n w of
        (Ok u, n1, w1) \<Rightarrow>
          (case NewRequest_err e method url of
             Some err \<Rightarrow> (Err (''unable to make request: '' @ err), n1, w1)
           | None \<Rightarrow>
               (case client_Do e (sent w1)
                       (resourceRequest method url (if method = ''POST'' then Some data else None)
                          (accessToken n1)) of
                  Inl err \<Rightarrow>
                    (Err (''unable to perform request: '' @ err), n1,
                     w1\<lparr>sent := sent w1 @
                       [resourceRequest method url (if method = ''POST'' then Some data else None)
                          (accessToken n1)]\<rparr>)
                | Inr resp \<Rightarrow>
                    (case StreamErr resp of
                       Some err \<Rightarrow>
                         (Err (''unable to read from stream: '' @ err), n1,
                          w1\<lparr>sent := sent w1 @
                            [resourceRequest method url (if method = ''POST'' then Some data else None)
                               (accessToken n1)]\<rparr>)
                     | None \<Rightarrow>
                         if StatusCode resp \<noteq> 200 then
                           (Err (''error from server: '' @ Stream resp), n1,
                            w1\<lparr>sent := sent w1 @
                              [resourceRequest method url (if method = ''POST'' then Some data else None)
                                 (accessToken n1)]\<rparr>)
                         else
                           (Ok (Stream resp), n1,
                            w1\<lparr>sent := sent w1 @
                              [resourceRequest method url (if method = ''POST'' then Some data else None)
                                 (accessToken n1)]\<rparr>))))
      | (Err err, n1, w1) \<Rightarrow> (Err err, n1, w1)
      | (Panic p, n1, w1) \<Rightarrow> (Panic p, n1, w1))"
  by (simp add: request_def NewRequest_def Do_def Header_Add_def ReadAll_def resourceRequest_def
      split: prod.split outcome.split option.split sum.split)

lemma script_fields:
  "NewRequest_err script_env = (\<lambda>method url. None)"
  "client_Do script_env = script_Do"
  by (simp_all add: script_env_def)

subsection \<open>The claims\<close>

text \<open>
  C1, as the code has it. Let \<open>now\<close> be the clock's reading in seconds, cut to 32 bits.
  When \<open>now\<close> is not above \<open>tokenRefreshTime\<close> (so also when the two are equal),
  \<open>CheckRefresh\<close> returns success, sends nothing and leaves the session as it is. When
  \<open>now\<close> is strictly above it (and the refresh request can be built), exactly one
  request is sent, the refresh request carrying the current refresh token; if the call
  then succeeds, the session holds the tokens of the 200 answer to that request. A
  \<open>CheckRefresh\<close> right after is a no-op whenever the clock's reading then is not
  above the refresh time the session now holds.
\<close>

theorem C1_CheckRefresh_refreshes_strictly_after:
  assumes "now = (word_of_int (time_Now e (ticks w) div 1000000000) :: uint32)"
    and "CheckRefresh e n w = (r, n', w')"
  shows "(now \<le> tokenRefreshTime n \<longrightarrow>
            r = Ok () \<and> n' = n \<and> w' = w\<lparr>ticks := Suc (ticks w)\<rparr>) \<and>
         (tokenRefreshTime n < now \<and> NewRequest_err e ''POST'' url_refresh = None \<longrightarrow>
            sent w' = sent w @ [refreshRequest (refreshToken n)]) \<and>
         (tokenRefreshTime n < now \<and> NewRequest_err e ''POST'' url_refresh = None \<and> r = Ok () \<longrightarrow>
            (\<exists>resp resBytes.
               client_Do e (sent w) (refreshRequest (refreshToken n)) = Inr resp \<and>
               StatusCode resp = 200 \<and> ReadFull resp = Some resBytes \<and>
               n' = storeTokens e resBytes n)) \<and>
         ((word_of_int (time_Now e (ticks w') div 1000000000) :: uint32) \<le> tokenRefreshTime n' \<longrightarrow>
            CheckRefresh e n' w' = (Ok (), n', w'\<lparr>ticks := Suc (ticks w')\<rparr>))"
proof -
  have c1: "r = Ok () \<and> n' = n \<and> w' = w\<lparr>ticks := Suc (ticks w)\<rparr>"
    if "now \<le> tokenRefreshTime n"
  proof -
    from that have "\<not> tokenRefreshTime n < word_of_int (time_Now e (ticks w) div 1000000000)"
      using assms(1) by simp
    from CheckRefresh_not_due [OF this] assms(2) show ?thesis
      by simp
  qed
  have c2: "sent w' = sent w @ [refreshRequest (refreshToken n)]"
    if a: "tokenRefreshTime n < now \<and> NewRequest_err e ''POST'' url_refresh = None"
  proof -
    from a have due: "tokenRefreshTime n < word_of_int (time_Now e (ticks w) div 1000000000)"
      using assms(1) by simp
    from CheckRefresh_due_state(1) [OF due] assms(2)
    have "w' = snd (snd (refreshNow e n (w\<lparr>ticks := Suc (ticks w)\<rparr>)))"
      by (metis snd_conv)
    with a show ?thesis
      by (simp add: refreshNow_sent)
  qed
  have c3: "\<exists>resp resBytes.
               client_Do e (sent w) (refreshRequest (refreshToken n)) = Inr resp \<and>
               StatusCode resp = 200 \<and> ReadFull resp = Some resBytes \<and>
               n' = storeTokens e resBytes n"
    if a: "tokenRefreshTime n < now \<and> NewRequest_err e ''POST'' url_refresh = None \<and> r = Ok ()"
  proof -
    from a have due: "tokenRefreshTime n < word_of_int (time_Now e (ticks w) div 1000000000)"
      using assms(1) by simp
    from CheckRefresh_due_state [OF due] assms(2) a
    have "refreshNow e n (w\<lparr>ticks := Suc (ticks w)\<rparr>) = (Ok (), n', w')"
      by (metis fst_conv snd_conv prod.collapse)
    with a have "exchange e (refreshRequest (refreshToken n)) n (w\<lparr>ticks := Suc (ticks w)\<rparr>) =
                   (Ok (), n', w')"
      by (simp add: refreshNow_exchange)
    from exchange_Ok [OF this] show ?thesis
      by auto
  qed
  have c4: "CheckRefresh e n' w' = (Ok (), n', w'\<lparr>ticks := Suc (ticks w')\<rparr>)"
    if "(word_of_int (time_Now e (ticks w') div 1000000000) :: uint32) \<le> tokenRefreshTime n'"
  proof -
    from that have "\<not> tokenRefreshTime n' < word_of_int (time_Now e (ticks w') div 1000000000)"
      by simp
    from CheckRefresh_not_due [OF this] show ?thesis .
  qed
  from c1 c2 c3 c4 show ?thesis
    by blast
qed

theorem C1_witness:
  "CheckRefresh script_env session0 world0 =
     (Ok (), session1, \<lparr>sent = [refreshRequest ''r0''], ticks = 1\<rparr>)
   \<and> CheckRefresh script_env session1 \<lparr>sent = [refreshRequest ''r0''], ticks = 1\<rparr> =
     (Ok (), session1, \<lparr>sent = [refreshRequest ''r0''], ticks = 2\<rparr>)"
proof -
  have "(word_of_int (time_Now script_env (ticks \<lparr>sent = [refreshRequest ''r0''], ticks = 1\<rparr>)
            div 1000000000) :: uint32) \<le> tokenRefreshTime session1"
    by (simp add: script_env_def session1_def)
  with C1_CheckRefresh_refreshes_strictly_after [OF refl script_refresh] script_refresh
  show ?thesis by simp
qed

text \<open>
  C1, as the specification words it, does not hold. At the second \<open>1700001800\<close>, equal to the refresh
  time of the session, nothing is sent. After a refresh at \<open>1700005000\<close> that succeeds
  with a token whose refresh time lies in the past, the next \<open>CheckRefresh\<close> refreshes
  again. At the second \<open>5994967296\<close>, far past the refresh time, the 32-bit reading is
  \<open>1700000000\<close> and nothing is sent.
\<close>

theorem C1_counterexample:
  "uint (tokenRefreshTime session1) \<le> time_Now (at_time 1700001800) (ticks world0) div 1000000000
   \<and> CheckRefresh (at_time 1700001800) session1 world0 = (Ok (), session1, \<lparr>sent = [], ticks = 1\<rparr>)
   \<and> CheckRefresh (at_time 1700005000) session1 world0 =
       (Ok (), session1, \<lparr>sent = [refreshRequest ''r1''], ticks = 1\<rparr>)
   \<and> CheckRefresh (at_time 1700005000) session1 \<lparr>sent = [refreshRequest ''r1''], ticks = 1\<rparr> =
       (Ok (), session1, \<lparr>sent = [refreshRequest ''r1'', refreshRequest ''r1''], ticks = 2\<rparr>)
   \<and> uint (tokenRefreshTime session1) \<le> time_Now (at_time 5994967296) (ticks world0) div 1000000000
   \<and> CheckRefresh (at_time 5994967296) session1 world0 = (Ok (), session1, \<lparr>sent = [], ticks = 1\<rparr>)"
  by (simp add: CheckRefresh_def time_Now_Unix_def refreshNow_def NewRequest_def exchange_cases
      Header_Add_def at_time_def script_env_def script_Do_def reply_def ReadFull_def
      storeTokens_fields tokens_json_def session1_def world0_def refreshRequest_def url_refresh_def)

text \<open>
  C2. Every authentication or refresh call (the ticket flow, from a ticket or from a
  login, the basic flow, the refresh) that succeeds has replaced \<open>accessToken\<close>, \<open>refreshToken\<close>, \<open>tokenRefreshTime\<close> and
  \<open>tokenExpirationTime\<close> together, all four from the body of one response: the answer
  (status 200) to the last request the call sent. A call that does not succeed (a
  request that cannot be built, a transport error, a status other than 200, and also a
  panic) leaves the whole struct as it was.
\<close>

theorem C2_tokens_replaced_together_or_untouched:
  assumes "f = AuthenticateUbiTicket e ticket \<or> f = AuthenticateUbi e email pw \<or>
           f = Authenticate e username password \<or> f = refreshNow e"
    and "f n w = (r, n', w')"
  shows "(r = Ok () \<longrightarrow>
            (\<exists>resp resBytes res.
               sent w' \<noteq> [] \<and> client_Do e (butlast (sent w')) (last (sent w')) = Inr resp \<and>
               StatusCode resp = 200 \<and> ReadFull resp = Some resBytes \<and>
               res = fst (Unmarshal_authResponse e resBytes \<lparr>AccessToken = '''', RefreshToken = ''''\<rparr>) \<and>
               n' = n\<lparr>accessToken := AccessToken res, refreshToken := RefreshToken res,
                      tokenRefreshTime := Rat (Payload (parseTokenInfo e (AccessToken res))),
                      tokenExpirationTime := Exp (Payload (parseTokenInfo e (AccessToken res)))\<rparr>)) \<and>
         (r \<noteq> Ok () \<longrightarrow> n' = n)"
proof -
  have shape: "(\<exists>err v. f n w = (Err (''unable to make request: '' @ err), n, v)) \<or>
               (\<exists>req v. f n w = exchange e req n v)"
    using assms(1) by (rule flow_shape)
  show ?thesis
  proof (cases "r = Ok ()")
    case False
    from shape show ?thesis
    proof
      assume "\<exists>err v. f n w = (Err (''unable to make request: '' @ err), n, v)"
      with assms(2) False show ?thesis by auto
    next
      assume "\<exists>req v. f n w = exchange e req n v"
      then obtain req v where "exchange e req n v = (r, n', w')"
        using assms(2) by auto
      from exchange_not_Ok [OF this False] False show ?thesis by simp
    qed
  next
    case True
    with shape assms(2) obtain req v where ex: "exchange e req n v = (Ok (), n', w')"
      by auto
    from exchange_Ok [OF ex] obtain resp resBytes where
      r: "client_Do e (sent v) req = Inr resp" "StatusCode resp = 200"
         "ReadFull resp = Some resBytes" "n' = storeTokens e resBytes n"
         "w' = v\<lparr>sent := sent v @ [req]\<rparr>"
      by blast
    from r(5) have "sent w' \<noteq> []" "butlast (sent w') = sent v" "last (sent w') = req"
      by simp_all
    with r True show ?thesis
      by (simp add: storeTokens_fields)
  qed
qed

theorem C2_witness:
  "Authenticate script_env ''user'' ''secret'' NewNadeo world0 =
     (Ok (),
      NewNadeo\<lparr>accessToken := ''h.p.s'', refreshToken := ''r1'',
               tokenRefreshTime := 1700001800, tokenExpirationTime := 1700003600\<rparr>,
      world0\<lparr>sent := [\<lparr>Method = ''POST'', URL = url_basic, Body = Some (audienceBody NewNadeo),
                         Header = [(''Content-Type'', ''application/json''),
                                   (''Authorization'', ''Basic user:secret'')]\<rparr>]\<rparr>)
   \<and> refreshNow script_env NewNadeo world0 =
     (Err ''error 401 from server: Invalid credentials.'', NewNadeo,
      world0\<lparr>sent := [\<lparr>Method = ''POST'', URL = url_refresh, Body = None,
                         Header = [(''Authorization'', ''nadeo_v1 t='')]\<rparr>]\<rparr>)"
proof -
  have a: "Authenticate script_env ''user'' ''secret'' NewNadeo world0 =
     (Ok (),
      NewNadeo\<lparr>accessToken := ''h.p.s'', refreshToken := ''r1'',
               tokenRefreshTime := 1700001800, tokenExpirationTime := 1700003600\<rparr>,
      world0\<lparr>sent := [\<lparr>Method = ''POST'', URL = url_basic, Body = Some (audienceBody NewNadeo),
                         Header = [(''Content-Type'', ''application/json''),
                                   (''Authorization'', ''Basic user:secret'')]\<rparr>]\<rparr>)"
    by (simp add: Authenticate_def NewRequest_def exchange_cases script_env_def script_Do_def
        Header_Add_def SetBasicAuth_def reply_def ReadFull_def storeTokens_fields world0_def
        tokens_json_def)
  have b: "refreshNow script_env NewNadeo world0 =
     (Err ''error 401 from server: Invalid credentials.'', NewNadeo,
      world0\<lparr>sent := [\<lparr>Method = ''POST'', URL = url_refresh, Body = None,
                         Header = [(''Authorization'', ''nadeo_v1 t='')]\<rparr>]\<rparr>)"
    by (simp add: refreshNow_def NewRequest_def exchange_cases script_env_def script_Do_def
        Header_Add_def reply_def ReadFull_def serverAuthError_def world0_def rejected_json_def
        NewNadeo_def NewNadeoWithAudience_def fmt_d_def digits.simps)
  from C2_tokens_replaced_together_or_untouched [where f = "Authenticate script_env ''user'' ''secret''"
      and e = script_env and username = "''user''" and password = "''secret''",
      OF disjI2 [OF disjI2 [OF disjI1 [OF refl]]] a]
    C2_tokens_replaced_together_or_untouched [where f = "refreshNow script_env"
      and e = script_env, OF disjI2 [OF disjI2 [OF disjI2 [OF refl]]] b]
  show ?thesis using a b by simp
qed

text \<open>
  C3. A \<open>Get\<close> with \<open>useCache\<close> true whose lookup finds the target returns the cached
  body at once: the session is untouched (no refresh check) and no request is sent. A
  \<open>Get\<close> with \<open>useCache\<close> true whose lookup misses and which succeeds has passed the
  refresh check, has sent exactly one request for the target after it, the GET whose 200
  answer is the body returned, and has stored the body under the target with the cache's
  default time to live, counted from the clock's reading at the insertion. A second such
  \<open>Get\<close> right after, at a reading not later than that expiration, returns the same body
  and sends nothing.
\<close>

theorem C3_cached_Get:
  assumes "0 < defaultExpiration (requestCache n)"
  shows "(cache_Get e (requestCache n) target w = (Some cached, w0) \<longrightarrow>
            Get e target True n w = (Ok cached, n, w0) \<and> sent w0 = sent w) \<and>
         (cache_Get e (requestCache n) target w = (None, w0) \<and>
          Get e target True n w = (Ok body, n', w') \<longrightarrow>
            (\<exists>n1 w1 resp.
               CheckRefresh e n w0 = (Ok (), n1, w1) \<and>
               client_Do e (sent w1) (resourceRequest ''GET'' target None (accessToken n1)) = Inr resp \<and>
               StatusCode resp = 200 \<and> Stream resp = body \<and>
               sent w' = sent w1 @ [resourceRequest ''GET'' target None (accessToken n1)] \<and>
               ticks w' = Suc (ticks w1) \<and>
               items (requestCache n') target =
                 Some \<lparr>Object = body,
                       Expiration = time_Now e (ticks w1) + defaultExpiration (requestCache n)\<rparr>) \<and>
            (time_Now e (ticks w') \<le> time_Now e (ticks w' - 1) + defaultExpiration (requestCache n) \<longrightarrow>
               fst (Get e target True n' w') = Ok body \<and>
               fst (snd (Get e target True n' w')) = n' \<and>
               sent (snd (snd (Get e target True n' w'))) = sent w'))"
proof -
  have hit: "Get e target True n w = (Ok cached, n, w0) \<and> sent w0 = sent w"
    if "cache_Get e (requestCache n) target w = (Some cached, w0)"
    using that cache_Get_sent [of e "requestCache n" target w]
    by (simp add: Get_def request_def)
  have miss: "(\<exists>n1 w1 resp.
               CheckRefresh e n w0 = (Ok (), n1, w1) \<and>
               client_Do e (sent w1) (resourceRequest ''GET'' target None (accessToken n1)) = Inr resp \<and>
               StatusCode resp = 200 \<and> Stream resp = body \<and>
               sent w' = sent w1 @ [resourceRequest ''GET'' target None (accessToken n1)] \<and>
               ticks w' = Suc (ticks w1) \<and>
               items (requestCache n') target =
                 Some \<lparr>Object = body,
                       Expiration = time_Now e (ticks w1) + defaultExpiration (requestCache n)\<rparr>) \<and>
            (time_Now e (ticks w') \<le> time_Now e (ticks w' - 1) + defaultExpiration (requestCache n) \<longrightarrow>
               fst (Get e target True n' w') = Ok body \<and>
               fst (snd (Get e target True n' w')) = n' \<and>
               sent (snd (snd (Get e target True n' w'))) = sent w')"
    if m: "cache_Get e (requestCache n) target w = (None, w0)"
      and g: "Get e target True n w = (Ok body, n', w')"
  proof -
    from Get_miss_Ok [OF m g assms] obtain n1 w1 resp where
      f: "CheckRefresh e n w0 = (Ok (), n1, w1)"
         "client_Do e (sent w1) (resourceRequest ''GET'' target None (accessToken n1)) = Inr resp"
         "StatusCode resp = 200" "Stream resp = body"
         "n' = n1\<lparr>requestCache := (requestCache n)\<lparr>items := (items (requestCache n))
                  (target := Some \<lparr>Object = body,
                     Expiration = time_Now e (ticks w1) + defaultExpiration (requestCache n)\<rparr>)\<rparr>\<rparr>"
         "w' = \<lparr>sent = sent w1 @ [resourceRequest ''GET'' target None (accessToken n1)],
                 ticks = Suc (ticks w1)\<rparr>"
      by blast
    from f(5) have it: "items (requestCache n') target =
                 Some \<lparr>Object = body,
                       Expiration = time_Now e (ticks w1) + defaultExpiration (requestCache n)\<rparr>"
      by simp
    from f(6) have w': "sent w' = sent w1 @ [resourceRequest ''GET'' target None (accessToken n1)]"
      "ticks w' = Suc (ticks w1)"
      by simp_all
    have again: "fst (Get e target True n' w') = Ok body \<and>
               fst (snd (Get e target True n' w')) = n' \<and>
               sent (snd (snd (Get e target True n' w'))) = sent w'"
      if "time_Now e (ticks w') \<le> time_Now e (ticks w' - 1) + defaultExpiration (requestCache n)"
      using Get_hit [of n' target "\<lparr>Object = body,
                       Expiration = time_Now e (ticks w1) + defaultExpiration (requestCache n)\<rparr>" e w']
        it that w'(2)
      by simp
    from f(1-4) it w' again show ?thesis
      by blast
  qed
  from hit miss show ?thesis
    by blast
qed

theorem C3_witness:
  "Get script_env ''/data'' True session1 world0 =
     (Ok ''[1,2,3]'', session2,
      \<lparr>sent = [resourceRequest ''GET'' ''/data'' None ''h.p.s''], ticks = 2\<rparr>)
   \<and> Get script_env ''/data'' True session2
       \<lparr>sent = [resourceRequest ''GET'' ''/data'' None ''h.p.s''], ticks = 2\<rparr> =
     (Ok ''[1,2,3]'', session2,
      \<lparr>sent = [resourceRequest ''GET'' ''/data'' None ''h.p.s''], ticks = 3\<rparr>)"
proof -
  have pos: "0 < defaultExpiration (requestCache session1)"
    by (simp add: session1_def NewNadeo_def NewNadeoWithAudience_def cache_New_def time_Minute_def)
  have miss: "cache_Get script_env (requestCache session1) ''/data'' world0 = (None, world0)"
    by (simp add: cache_Get_def session1_def NewNadeo_def NewNadeoWithAudience_def cache_New_def)
  have first: "Get script_env ''/data'' True session1 world0 =
     (Ok ''[1,2,3]'', session2,
      \<lparr>sent = [resourceRequest ''GET'' ''/data'' None ''h.p.s''], ticks = 2\<rparr>)"
    by (simp add: Get_def request_def cache_Get_def CheckRefresh_def time_Now_Unix_def NewRequest_def
        Do_def Header_Add_def ReadAll_def cache_Set_def DefaultExpiration_def
        time_Now_UnixNano_def resourceRequest_def script_env_def script_Do_def reply_def
        session2_def session1_def NewNadeo_def NewNadeoWithAudience_def cache_New_def
        time_Minute_def world0_def)
  have second: "Get script_env ''/data'' True session2
       \<lparr>sent = [resourceRequest ''GET'' ''/data'' None ''h.p.s''], ticks = 2\<rparr> =
     (fst (Get script_env ''/data'' True session2
       \<lparr>sent = [resourceRequest ''GET'' ''/data'' None ''h.p.s''], ticks = 2\<rparr>),
      fst (snd (Get script_env ''/data'' True session2
       \<lparr>sent = [resourceRequest ''GET'' ''/data'' None ''h.p.s''], ticks = 2\<rparr>)),
      \<lparr>sent = sent (snd (snd (Get script_env ''/data'' True session2
       \<lparr>sent = [resourceRequest ''GET'' ''/data'' None ''h.p.s''], ticks = 2\<rparr>))), ticks = 3\<rparr>)"
    by (simp add: Get_def request_def cache_Get_def time_Now_UnixNano_def session2_def
        script_env_def)
  have fresh: "time_Now script_env (ticks \<lparr>sent = [resourceRequest ''GET'' ''/data'' None ''h.p.s''], ticks = 2\<rparr>)
      \<le> time_Now script_env (ticks \<lparr>sent = [resourceRequest ''GET'' ''/data'' None ''h.p.s''], ticks = 2\<rparr> - 1)
          + defaultExpiration (requestCache session1)"
    by (simp add: script_env_def session1_def NewNadeo_def NewNadeoWithAudience_def cache_New_def
        time_Minute_def)
  from C3_cached_Get [OF pos, of script_env "''/data''" world0 _ world0 "''[1,2,3]''" session2
      "\<lparr>sent = [resourceRequest ''GET'' ''/data'' None ''h.p.s''], ticks = 2\<rparr>"]
    miss first fresh
  have "fst (Get script_env ''/data'' True session2
       \<lparr>sent = [resourceRequest ''GET'' ''/data'' None ''h.p.s''], ticks = 2\<rparr>) = Ok ''[1,2,3]'' \<and>
     fst (snd (Get script_env ''/data'' True session2
       \<lparr>sent = [resourceRequest ''GET'' ''/data'' None ''h.p.s''], ticks = 2\<rparr>)) = session2 \<and>
     sent (snd (snd (Get script_env ''/data'' True session2
       \<lparr>sent = [resourceRequest ''GET'' ''/data'' None ''h.p.s''], ticks = 2\<rparr>))) =
       [resourceRequest ''GET'' ''/data'' None ''h.p.s'']"
    by simp
  with first second show ?thesis
    by simp
qed

text \<open>
  C4, at a failing input. The server rejects the credentials with status 401 and the usual
  envelope, in a response that does not declare its length (\<open>ContentLength = -1\<close>). None
  of the three exchanges returns an error built from the envelope: each panics when it
  allocates the buffer, before the status is looked at. The dispatcher, which reads the
  body with \<open>ReadAll\<close>, turns the same response into an error; and the same envelope in a
  response that declares its length gives the error with its code and message.
\<close>

theorem C4_unknown_length_panics:
  "fst (Authenticate chunked_env ''user'' ''wrong'' NewNadeo world0) =
     Panic ''runtime error: makeslice: len out of range''
   \<and> fst (AuthenticateUbiTicket chunked_env ''t1'' NewNadeo world0) =
     Panic ''runtime error: makeslice: len out of range''
   \<and> fst (refreshNow chunked_env session1 world0) =
     Panic ''runtime error: makeslice: len out of range''
   \<and> fst (Get chunked_env ''/data'' False session1 world0) =
     Err (''error from server: '' @ rejected_json)
   \<and> fst (refreshNow script_env NewNadeo world0) =
     Err ''error 401 from server: Invalid credentials.''"
proof -
  have "fst (refreshNow script_env NewNadeo world0) =
          Err ''error 401 from server: Invalid credentials.''"
    by (simp add: refreshNow_def NewRequest_def exchange_cases script_env_def script_Do_def
        Header_Add_def reply_def ReadFull_def serverAuthError_def world0_def rejected_json_def
        NewNadeo_def NewNadeoWithAudience_def fmt_d_def digits.simps)
  then show ?thesis
    by (simp add: Authenticate_def AuthenticateUbiTicket_def refreshNow_def Get_def request_def
        CheckRefresh_def time_Now_Unix_def NewRequest_def exchange_cases Do_def ReadFull_def
        ReadAll_def chunked_env_def script_env_def session1_def world0_def)
qed

text \<open>
  C5. A resource call (\<open>Get\<close> or \<open>Post\<close>) that reaches the server (no cache hit, the
  refresh check passed, the request could be built, the transport delivered a response
  and its whole body) and is answered with a status other than 200 fails with the error
  text \<open>error from server: \<close> followed by the body exactly as received. The error
  envelope is not decoded: the text is the raw body, whatever the decoder would make of it.
\<close>

theorem C5_resource_error_carries_raw_body:
  assumes "(call = Get e url useCache \<and> method = ''GET'' \<and> data = '''') \<or>
           (call = Post e url data \<and> method = ''POST'' \<and> useCache = False)"
    and "(if useCache then cache_Get e (requestCache n) url w else (None, w)) = (None, w0)"
    and "CheckRefresh e n w0 = (Ok (), n1, w1)"
    and "NewRequest_err e method url = None"
    and "req = \<lparr>Method = method, URL = url,
                 Body = (if method = ''POST'' then Some data else None),
                 Header = [(''Authorization'', ''nadeo_v1 t='' @ accessToken n1),
                           (''Accept'', ''application/json''),
                           (''Content-Type'', ''application/json'')]\<rparr>"
    and "client_Do e (sent w1) req = Inr resp"
    and "StatusCode resp \<noteq> 200"
    and "StreamErr resp = None"
  shows "call n w = (Err (''error from server: '' @ Stream resp), n1, w1\<lparr>sent := sent w1 @ [req]\<rparr>)"
proof -
  have call: "call n w = request e method url useCache data n w"
    using assms(1) by (auto simp: Get_def Post_def)
  show ?thesis
    unfolding call
    using assms(2-)
    by (simp add: request_def NewRequest_def Do_def Header_Add_def ReadAll_def)
qed

theorem C5_witness:
  "Get script_env ''/missing'' False session1 world0 =
     (Err ''error from server: not found'', session1,
      \<lparr>sent = [\<lparr>Method = ''GET'', URL = ''/missing'', Body = None,
                 Header = [(''Authorization'', ''nadeo_v1 t=h.p.s''),
                           (''Accept'', ''application/json''),
                           (''Content-Type'', ''application/json'')]\<rparr>],
       ticks = 1\<rparr>)"
proof -
  have refresh: "CheckRefresh script_env session1 world0 = (Ok (), session1, \<lparr>sent = [], ticks = 1\<rparr>)"
    by (simp add: CheckRefresh_def time_Now_Unix_def script_env_def session1_def world0_def)
  have resp: "client_Do script_env (sent \<lparr>sent = [], ticks = 1\<rparr>)
        \<lparr>Method = ''GET'', URL = ''/missing'', Body = (if ''GET'' = ''POST'' then Some '''' else None),
         Header = [(''Authorization'', ''nadeo_v1 t='' @ accessToken session1),
                   (''Accept'', ''application/json''), (''Content-Type'', ''application/json'')]\<rparr>
      = Inr (reply 404 ''not found'')"
    by (simp add: script_env_def script_Do_def)
  from C5_resource_error_carries_raw_body [of "Get script_env ''/missing'' False" script_env
      "''/missing''" False "''GET''" "''''" session1 world0 world0 session1
      "\<lparr>sent = [], ticks = 1\<rparr>" _ "reply 404 ''not found''", OF _ _ refresh _ refl resp]
  show ?thesis
    by (simp add: script_env_def reply_def session1_def)
qed




text \<open>
  C7, as the code has it. A session that was never authenticated has empty tokens and
  zero timing fields. \<open>CheckRefresh\<close> on it, at any moment whose 32-bit reading in
  seconds is not zero, sends the refresh request with the empty token,
  \<open>Authorization: nadeo_v1 t=\<close>. When the server answers with a status other than 200
  (in a response whose body was read into the buffer of its declared length), the call
  fails with the text of the refresh failure around the server's own code and message, as
  for any session: \<open>unable to refresh token: error <code> from server: <message>\<close>. No
  error of its own is made for the unauthenticated state, and the session stays as it was.
\<close>

theorem C7_CheckRefresh_unauthenticated:
  assumes "accessToken n = ''''" and "refreshToken n = ''''"
    and "tokenRefreshTime n = 0" and "tokenExpirationTime n = 0"
    and "(word_of_int (time_Now e (ticks w) div 1000000000) :: uint32) \<noteq> 0"
    and "NewRequest_err e ''POST'' url_refresh = None"
    and "client_Do e (sent w) (refreshRequest '''') = Inr resp"
    and "StatusCode resp \<noteq> 200"
    and "ReadFull resp = Some resBytes"
    and "respError = fst (Unmarshal_errorResponse e resBytes \<lparr>Code = 0, Message = ''''\<rparr>)"
  shows "CheckRefresh e n w =
           (Err (''unable to refresh token: '' @
                 ''error '' @ fmt_d (Code respError) @ '' from server: '' @ Message respError),
            n, \<lparr>sent = sent w @ [refreshRequest ''''], ticks = Suc (ticks w)\<rparr>)"
proof -
  have due: "tokenRefreshTime n < word_of_int (time_Now e (ticks w) div 1000000000)"
    using assms(3,5) by (simp add: word_greater_zero_iff)
  have "refreshNow e n (w\<lparr>ticks := Suc (ticks w)\<rparr>) =
          (Err (serverAuthError e resBytes), n, \<lparr>sent = sent w @ [refreshRequest ''''], ticks = Suc (ticks w)\<rparr>)"
    using assms(2,6-9) by (simp add: refreshNow_exchange exchange_cases)
  then show ?thesis
    using assms(10) by (simp add: CheckRefresh_due [OF due] serverAuthError_def Let_def)
qed

theorem C7_witness:
  "CheckRefresh script_env NewNadeo world0 =
     (Err ''unable to refresh token: error 401 from server: Invalid credentials.'',
      NewNadeo, \<lparr>sent = [refreshRequest ''''], ticks = 1\<rparr>)"
proof -
  have resp: "client_Do script_env (sent world0) (refreshRequest '''') = Inr (reply 401 rejected_json)"
    by (simp add: script_env_def script_Do_def refreshRequest_def)
  have body: "ReadFull (reply 401 rejected_json) = Some rejected_json"
    by (simp add: ReadFull_def reply_def)
  from C7_CheckRefresh_unauthenticated [of NewNadeo script_env world0 "reply 401 rejected_json"
      rejected_json, OF _ _ _ _ _ _ resp _ body refl]
  show ?thesis
    by (simp add: NewNadeo_def NewNadeoWithAudience_def script_env_def world0_def reply_def
        fmt_d_def digits.simps)
qed

text \<open>
  C7, as the specification words it, does not hold at every moment. At the epoch, and
  again \<open>4294967296\<close> seconds later, the clock's 32-bit reading is zero: it is not above
  the zero refresh time of a session that was never authenticated, so \<open>CheckRefresh\<close>
  returns success and attempts no refresh exchange.
\<close>

theorem C7_counterexample:
  "accessToken NewNadeo = '''' \<and> refreshToken NewNadeo = '''' \<and>
   tokenRefreshTime NewNadeo = 0 \<and> tokenExpirationTime NewNadeo = 0 \<and>
   CheckRefresh (at_time 0) NewNadeo world0 = (Ok (), NewNadeo, \<lparr>sent = [], ticks = 1\<rparr>) \<and>
   CheckRefresh (at_time 4294967296) NewNadeo world0 = (Ok (), NewNadeo, \<lparr>sent = [], ticks = 1\<rparr>)"
  by (simp add: CheckRefresh_def time_Now_Unix_def at_time_def script_env_def world0_def
      NewNadeo_def NewNadeoWithAudience_def)

text \<open>
  C8. \<open>Post\<close> and a \<open>Get\<close> that does not use the cache do the same thing, apart from
  the method and the body of the request: the refresh check first, whose failure (or
  panic) is the result; then the request, built for the target with the three headers and
  the access token the refresh check left, and handed to the HTTP client; then the error
  for a transport failure, for a body that cannot be read and for a status other than 200,
  or the body. No step reads or writes the cache. Moreover the struct a \<open>Post\<close> leaves
  holds the cache it found, and with any other cache in the struct a \<open>Post\<close> does the
  same and leaves that cache.
\<close>

theorem C8_Post_as_uncached_Get:
  assumes "(call = Post e url data \<and> method = ''POST'' \<and> body = Some data) \<or>
           (call = Get e url False \<and> method = ''GET'' \<and> body = None)"
  shows "call n w =
     (case CheckRefresh e n w of
        (Ok u, n1, w1) \<Rightarrow>
          (case NewRequest_err e method url of
             Some err \<Rightarrow> (Err (''unable to make request: '' @ err), n1, w1)
           | None \<Rightarrow>
               (case client_Do e (sent w1) (resourceRequest method url body (accessToken n1)) of
                  Inl err \<Rightarrow>
                    (Err (''unable to perform request: '' @ err), n1,
                     w1\<lparr>sent := sent w1 @ [resourceRequest method url body (accessToken n1)]\<rparr>)
                | Inr resp \<Rightarrow>
                    (case StreamErr resp of
                       Some err \<Rightarrow>
                         (Err (''unable to read from stream: '' @ err), n1,
                          w1\<lparr>sent := sent w1 @ [resourceRequest method url body (accessToken n1)]\<rparr>)
                     | None \<Rightarrow>
                         if StatusCode resp \<noteq> 200 then
                           (Err (''error from server: '' @ Stream resp), n1,
                            w1\<lparr>sent := sent w1 @ [resourceRequest method url body (accessToken n1)]\<rparr>)
                         else
                           (Ok (Stream resp), n1,
                            w1\<lparr>sent := sent w1 @ [resourceRequest method url body (accessToken n1)]\<rparr>))))
      | (Err err, n1, w1) \<Rightarrow> (Err err, n1, w1)
      | (Panic p, n1, w1) \<Rightarrow> (Panic p, n1, w1))
   \<and> requestCache (fst (snd (Post e url data n w))) = requestCache n
   \<and> Post e url data (n\<lparr>requestCache := c\<rparr>) w =
       (case Post e url data n w of (r, n', w') \<Rightarrow> (r, n'\<lparr>requestCache := c\<rparr>, w'))"
proof -
  have call: "call n w = request e method url False (case body of None \<Rightarrow> '''' | Some d \<Rightarrow> d) n w"
    and body: "body = (if method = ''POST'' then Some (case body of None \<Rightarrow> '''' | Some d \<Rightarrow> d) else None)"
    using assms by (auto simp: Post_def Get_def)
  have keep: "requestCache (fst (snd (Post e url data n w))) = requestCache n"
    using CheckRefresh_keeps_cache [of e n w]
    by (auto simp: Post_def request_def Do_def split: prod.split outcome.split sum.split)
  have indep: "Post e url data (n\<lparr>requestCache := c\<rparr>) w =
       (case Post e url data n w of (r, n', w') \<Rightarrow> (r, n'\<lparr>requestCache := c\<rparr>, w'))"
    by (simp add: Post_def request_def Do_def CheckRefresh_requestCache
        split: prod.split outcome.split sum.split)
  have "call n w =
     (case CheckRefresh e n w of
        (Ok u, n1, w1) \<Rightarrow>
          (case NewRequest_err e method url of
             Some err \<Rightarrow> (Err (''unable to make request: '' @ err), n1, w1)
           | None \<Rightarrow>
               (case client_Do e (sent w1) (resourceRequest method url body (accessToken n1)) of
                  Inl err \<Rightarrow>
                    (Err (''unable to perform request: '' @ err), n1,
                     w1\<lparr>sent := sent w1 @ [resourceRequest method url body (accessToken n1)]\<rparr>)
                | Inr resp \<Rightarrow>
                    (case StreamErr resp of
                       Some err \<Rightarrow>
                         (Err (''unable to read from stream: '' @ err), n1,
                          w1\<lparr>sent := sent w1 @ [resourceRequest method url body (accessToken n1)]\<rparr>)
                     | None \<Rightarrow>
                         if StatusCode resp \<noteq> 200 then
                           (Err (''error from server: '' @ Stream resp), n1,
                            w1\<lparr>sent := sent w1 @ [resourceRequest method url body (accessToken n1)]\<rparr>)
                         else
                           (Ok (Stream resp), n1,
                            w1\<lparr>sent := sent w1 @ [resourceRequest method url body (accessToken n1)]\<rparr>))))
      | (Err err, n1, w1) \<Rightarrow> (Err err, n1, w1)
      | (Panic p, n1, w1) \<Rightarrow> (Panic p, n1, w1))"
    unfolding call request_uncached body [symmetric] ..
  with keep indep show ?thesis
    by (simp only: simp_thms)
qed

theorem C8_witness:
  "Post script_env ''/data'' ''{}'' session0 world0 =
     (Ok tokens_json, session1,
      \<lparr>sent = [refreshRequest ''r0'', resourceRequest ''POST'' ''/data'' (Some ''{}'') ''h.p.s''],
       ticks = 1\<rparr>)
   \<and> Get script_env ''/data'' False session0 world0 =
     (Ok ''[1,2,3]'', session1,
      \<lparr>sent = [refreshRequest ''r0'', resourceRequest ''GET'' ''/data'' None ''h.p.s''],
       ticks = 1\<rparr>)"
proof -
  have tok: "accessToken session1 = ''h.p.s''"
    by (simp add: session1_def)
  from C8_Post_as_uncached_Get [where call = "Post script_env ''/data'' ''{}''" and e = script_env
      and n = session0 and w = world0,
      OF disjI1 [OF conjI [OF refl conjI [OF refl refl]]]]
  have p: "Post script_env ''/data'' ''{}'' session0 world0 =
     (Ok tokens_json, session1,
      \<lparr>sent = [refreshRequest ''r0'', resourceRequest ''POST'' ''/data'' (Some ''{}'') ''h.p.s''],
       ticks = 1\<rparr>)"
    by (simp add: script_refresh script_fields tok script_Do_def resourceRequest_def reply_def)
  from C8_Post_as_uncached_Get [where call = "Get script_env ''/data'' False" and e = script_env
      and n = session0 and w = world0,
      OF disjI2 [OF conjI [OF refl conjI [OF refl refl]]]]
  have g: "Get script_env ''/data'' False session0 world0 =
     (Ok ''[1,2,3]'', session1,
      \<lparr>sent = [refreshRequest ''r0'', resourceRequest ''GET'' ''/data'' None ''h.p.s''],
       ticks = 1\<rparr>)"
    by (simp add: script_refresh script_fields tok script_Do_def resourceRequest_def reply_def)
  from p g show ?thesis by simp
qed

text \<open>
  C9. \<open>AuthenticateUbi\<close> is \<open>AuthenticateUbiTicket\<close> on the ticket the ticket service
  holds after the login, whatever the login reported: the failure of the login is not
  looked at, so replacing it by any other report changes nothing.
\<close>

theorem C9_AuthenticateUbi_ignores_login_failure:
  "AuthenticateUbi e email password n w =
     AuthenticateUbiTicket e (fst (fst (ubi_Authenticate e ubi_appId email password w))) n
       (snd (ubi_Authenticate e ubi_appId email password w))
   \<and> AuthenticateUbi
       (e\<lparr>ubi_Authenticate := (\<lambda>a m p v.
            ((fst (fst (ubi_Authenticate e a m p v)), report a m p v),
             snd (ubi_Authenticate e a m p v)))\<rparr>)
       email password n w =
     AuthenticateUbi e email password n w"
proof -
  have "exchange (e\<lparr>ubi_Authenticate := u\<rparr>) req n v = exchange e req n v" for u req v
    by (simp add: exchange_cases serverAuthError_def storeTokens_fields
        split: sum.split option.split)
  then have indep: "AuthenticateUbiTicket (e\<lparr>ubi_Authenticate := u\<rparr>) ticket n v =
               AuthenticateUbiTicket e ticket n v" for u ticket v
    by (simp add: AuthenticateUbiTicket_def NewRequest_def split: option.split)
  show ?thesis
    by (simp add: AuthenticateUbi_def indep split: prod.split)
qed

text \<open>
  C10, as the code has it. In each of the three exchanges, when the server answers 200
  (in a response whose body was read into the buffer of its declared length), the call
  returns success whatever the decoder reports: the error \<open>json.Unmarshal\<close> returns is
  dropped, and the session receives what the decoder left in the result that started
  zero-valued. Both tokens are the fields of that result, and the timing fields are what
  the token codec makes of its access token. In particular, when the decoder wrote
  nothing, both tokens become the empty string and the timing fields are those of the
  empty token.
\<close>

theorem C10_decoder_error_dropped:
  assumes "(f = AuthenticateUbiTicket e ticket \<and> url = url_ubiservices \<and>
            req = ubiservicesRequest (audience n) ticket) \<or>
           (f = Authenticate e username password \<and> url = url_basic \<and>
            req = basicRequest e (audience n) username password) \<or>
           (f = refreshNow e \<and> url = url_refresh \<and> req = refreshRequest (refreshToken n))"
    and "NewRequest_err e ''POST'' url = None"
    and "client_Do e (sent w) req = Inr resp"
    and "StatusCode resp = 200"
    and "ReadFull resp = Some resBytes"
    and "Unmarshal_authResponse e resBytes \<lparr>AccessToken = '''', RefreshToken = ''''\<rparr> = (res, failure)"
  shows "f n w =
           (Ok (),
            n\<lparr>accessToken := AccessToken res, refreshToken := RefreshToken res,
               tokenRefreshTime := Rat (Payload (parseTokenInfo e (AccessToken res))),
               tokenExpirationTime := Exp (Payload (parseTokenInfo e (AccessToken res)))\<rparr>,
            w\<lparr>sent := sent w @ [req]\<rparr>)
         \<and> (res = \<lparr>AccessToken = '''', RefreshToken = ''''\<rparr> \<longrightarrow>
              f n w =
                (Ok (),
                 n\<lparr>accessToken := '''', refreshToken := '''',
                    tokenRefreshTime := Rat (Payload (parseTokenInfo e '''')),
                    tokenExpirationTime := Exp (Payload (parseTokenInfo e ''''))\<rparr>,
                 w\<lparr>sent := sent w @ [req]\<rparr>))"
proof -
  have "f n w = exchange e req n w"
    using assms(1,2)
    by (auto simp: AuthenticateUbiTicket_exchange Authenticate_exchange refreshNow_exchange)
  with assms(3-6) have "f n w =
           (Ok (),
            n\<lparr>accessToken := AccessToken res, refreshToken := RefreshToken res,
               tokenRefreshTime := Rat (Payload (parseTokenInfo e (AccessToken res))),
               tokenExpirationTime := Exp (Payload (parseTokenInfo e (AccessToken res)))\<rparr>,
            w\<lparr>sent := sent w @ [req]\<rparr>)"
    by (simp add: exchange_cases storeTokens_fields)
  then show ?thesis
    by auto
qed

theorem C10_witness:
  "AuthenticateUbiTicket garbled_env ''t1'' session1 world0 =
     (Ok (),
      session1\<lparr>accessToken := '''', refreshToken := '''',
               tokenRefreshTime := 0, tokenExpirationTime := 0\<rparr>,
      \<lparr>sent = [ubiservicesRequest ''NadeoLiveServices'' ''t1''], ticks = 0\<rparr>)
   \<and> Authenticate garbled_env ''user'' ''secret'' session1 world0 =
     (Ok (),
      session1\<lparr>accessToken := '''', refreshToken := '''',
               tokenRefreshTime := 0, tokenExpirationTime := 0\<rparr>,
      \<lparr>sent = [basicRequest garbled_env ''NadeoLiveServices'' ''user'' ''secret''], ticks = 0\<rparr>)
   \<and> refreshNow garbled_env session1 world0 =
     (Ok (),
      session1\<lparr>accessToken := '''', refreshToken := '''',
               tokenRefreshTime := 0, tokenExpirationTime := 0\<rparr>,
      \<lparr>sent = [refreshRequest ''r1''], ticks = 0\<rparr>)"
proof -
  have built: "NewRequest_err garbled_env ''POST'' u = None" for u
    by (simp add: garbled_env_def script_env_def)
  have resp: "client_Do garbled_env (sent world0) r = Inr (reply 200 ''<html>'')" for r
    by (simp add: garbled_env_def)
  have status: "StatusCode (reply 200 ''<html>'') = 200"
    by (simp add: reply_def)
  have body: "ReadFull (reply 200 ''<html>'') = Some ''<html>''"
    by (simp add: ReadFull_def reply_def)
  have dec: "Unmarshal_authResponse garbled_env ''<html>'' \<lparr>AccessToken = '''', RefreshToken = ''''\<rparr> =
           (\<lparr>AccessToken = '''', RefreshToken = ''''\<rparr>, Some ''invalid character'')"
    by (simp add: garbled_env_def script_env_def tokens_json_def)
  have codec: "parseTokenInfo garbled_env '''' = \<lparr>Payload = \<lparr>Rat = 0, Exp = 0\<rparr>\<rparr>"
    by (simp add: garbled_env_def script_env_def)
  have s1: "audience session1 = ''NadeoLiveServices''" "refreshToken session1 = ''r1''"
    by (simp_all add: session1_def NewNadeo_def NewNadeoWithAudience_def)
  note t = C10_decoder_error_dropped [where e = garbled_env and n = session1 and w = world0,
      OF _ built resp status body dec]
  from t [where f = "AuthenticateUbiTicket garbled_env ''t1''",
      OF disjI1 [OF conjI [OF refl conjI [OF refl refl]]]]
    t [where f = "Authenticate garbled_env ''user'' ''secret''",
      OF disjI2 [OF disjI1 [OF conjI [OF refl conjI [OF refl refl]]]]]
    t [where f = "refreshNow garbled_env",
      OF disjI2 [OF disjI2 [OF conjI [OF refl conjI [OF refl refl]]]]]
  show ?thesis
    by (simp add: codec s1 world0_def)
qed

text \<open>
  C10, as the specification words it, does not hold for every body that cannot be parsed.
  On a body whose second field has the wrong type the decoder returns an error, yet it has
  filled the access token: the refresh returns success and the session holds the access
  token \<open>abc\<close>, not the empty string.
\<close>

theorem C10_counterexample:
  "snd (Unmarshal_authResponse partial_env partial_json \<lparr>AccessToken = '''', RefreshToken = ''''\<rparr>) =
     Some ''json: cannot unmarshal number into Go struct field authResponse.refreshToken of type string''
   \<and> client_Do partial_env [] (refreshRequest ''r1'') = Inr (reply 200 partial_json)
   \<and> refreshNow partial_env session1 world0 =
     (Ok (),
      session1\<lparr>accessToken := ''abc'', refreshToken := '''',
               tokenRefreshTime := 0, tokenExpirationTime := 0\<rparr>,
      \<lparr>sent = [refreshRequest ''r1''], ticks = 0\<rparr>)"
  by (simp add: refreshNow_def NewRequest_def exchange_cases Header_Add_def ReadFull_def reply_def
      storeTokens_fields partial_env_def script_env_def session1_def world0_def
      refreshRequest_def url_refresh_def)

end
